theory Spec2Isabelle
  imports Complex_Main
begin

section \<open>Data model of the minimap control\<close>

text \<open>
  The control (class \<open>Minimap\<close>, file \<open>src/minimap.ts\<close>) keeps a tracking rectangle on an
  inset map in step with the bounds of a primary map. JavaScript numbers are modelled as
  reals: arithmetic is exact and there is no NaN and no infinity. The map engine is not
  part of the program; what the program reads from it is a parameter of the function that
  reads it, and what the program asks of it is appended to a log of calls.
\<close>

text \<open>\<open>LngLat\<close> and \<open>LngLatBounds\<close> of the engine: the fields \<open>_ne\<close> and \<open>_sw\<close> the code
  reads and writes.\<close>

record LngLat =
  lng :: real
  lat :: real

record LngLatBounds =
  ne :: LngLat
  sw :: LngLat

datatype error = TypeError

text \<open>The data of the GeoJSON source \<open>trackingRect\<close>. Its \<open>properties.name\<close> never changes;
  its \<open>geometry.coordinates\<close> is the very array \<open>this.trackingRectCoordinates\<close> (\<open>load\<close>
  passes the reference), so the polygon is kept once, in the state. \<open>properties.bounds\<close> is
  absent until \<open>setTrackingRectBounds\<close> stores one.\<close>

record geojson =
  bounds :: "LngLatBounds option"

text \<open>The source object held in \<open>this.trackingRect\<close>; \<open>_data\<close> may be missing.\<close>

datatype source = Source (data: "geojson option")

text \<open>A polygon: rings of points, a point being the array \<open>[lng, lat]\<close>.\<close>

type_synonym coordinates = "real list list list"

text \<open>What the program asks of the engine and of the canvas, in the order it asks.\<close>

datatype call =
    Disable string
  | RemoveLayer string
  | RemoveSource string
  | AddSource string coordinates
  | AddLineLayer string string string real real
  | AddFillLayer string string string real
  | SetZoom real
  | SetCenter LngLat
  | SetData "LngLatBounds option" coordinates
  | FitBounds "LngLatBounds option" nat
  | MapOn string
  | MapOff string
  | MinimapOn string
  | SetCursor string
  | CanvasAddEventListener string

section \<open>Options\<close>

text \<open>The style of the inset map: the defaults' literal
  \<open>{version: 8, sources: {}, layers: []}\<close>, or whatever the caller passes, kept as text.\<close>

datatype style = EmptyStyle | Style string

text \<open>Modelled from the spec: the declaration of \<open>MinimapOptions\<close> (\<open>./types\<close>) is not
  among the sources. The record has the fields of the defaults object the constructor
  builds, with the types of the default values, and \<open>maxBounds\<close> and \<open>containerClass\<close>,
  which the code reads and which have no default. The field \<open>id\<close> is \<open>id_opt\<close> here.\<close>

record MinimapOptions =
  id_opt :: string
  width :: string
  height :: string
  style :: style
  center :: "real \<times> real"
  zoomLevelOffset :: real
  lineColor :: string
  lineWidth :: real
  lineOpacity :: real
  fillColor :: string
  fillOpacity :: real
  toggleDisplay :: bool
  dragPan :: bool
  scrollZoom :: bool
  boxZoom :: bool
  dragRotate :: bool
  keyboard :: bool
  doubleClickZoom :: bool
  touchZoomRotate :: bool
  disableMinimapMoveOnDrag :: bool
  enableResize :: bool
  enableMove :: bool
  maxBounds :: "LngLatBounds option"
  containerClass :: "string option"

text \<open>The \<open>config\<close> argument of the constructor: every field may be absent (\<open>None\<close>). A field
  that is present holds a value of the field's type.\<close>

record MinimapConfig =
  cfg_id :: "string option"
  cfg_width :: "string option"
  cfg_height :: "string option"
  cfg_style :: "style option"
  cfg_center :: "(real \<times> real) option"
  cfg_zoomLevelOffset :: "real option"
  cfg_lineColor :: "string option"
  cfg_lineWidth :: "real option"
  cfg_lineOpacity :: "real option"
  cfg_fillColor :: "string option"
  cfg_fillOpacity :: "real option"
  cfg_toggleDisplay :: "bool option"
  cfg_dragPan :: "bool option"
  cfg_scrollZoom :: "bool option"
  cfg_boxZoom :: "bool option"
  cfg_dragRotate :: "bool option"
  cfg_keyboard :: "bool option"
  cfg_doubleClickZoom :: "bool option"
  cfg_touchZoomRotate :: "bool option"
  cfg_disableMinimapMoveOnDrag :: "bool option"
  cfg_enableResize :: "bool option"
  cfg_enableMove :: "bool option"
  cfg_maxBounds :: "LngLatBounds option"
  cfg_containerClass :: "string option"

text \<open>The defaults object of the constructor.\<close>

definition default_options :: MinimapOptions where
  "default_options =
     \<lparr> id_opt = ''mapgl-minimap'',
       width = ''320px'',
       height = ''180px'',
       style = EmptyStyle,
       center = (0, 0),
       zoomLevelOffset = - 3,
       lineColor = ''#136a7e'',
       lineWidth = 1,
       lineOpacity = 1,
       fillColor = ''#d77a34'',
       fillOpacity = 0.25,
       toggleDisplay = False,
       dragPan = False,
       scrollZoom = False,
       boxZoom = False,
       dragRotate = False,
       keyboard = False,
       doubleClickZoom = False,
       touchZoomRotate = False,
       disableMinimapMoveOnDrag = False,
       enableResize = False,
       enableMove = False,
       maxBounds = None,
       containerClass = None \<rparr>"

text \<open>One property of \<open>Object.assign(target, source)\<close>: the source's value where the source
  has the property, the target's otherwise.\<close>

definition assigned :: "'a option \<Rightarrow> 'a \<Rightarrow> 'a" where
  "assigned src tgt = (case src of Some v \<Rightarrow> v | None \<Rightarrow> tgt)"

definition object_assign :: "MinimapOptions \<Rightarrow> MinimapConfig \<Rightarrow> MinimapOptions" where
  "object_assign opts cfg =
     \<lparr> id_opt = assigned (cfg_id cfg) (id_opt opts),
       width = assigned (cfg_width cfg) (width opts),
       height = assigned (cfg_height cfg) (height opts),
       style = assigned (cfg_style cfg) (style opts),
       center = assigned (cfg_center cfg) (center opts),
       zoomLevelOffset = assigned (cfg_zoomLevelOffset cfg) (zoomLevelOffset opts),
       lineColor = assigned (cfg_lineColor cfg) (lineColor opts),
       lineWidth = assigned (cfg_lineWidth cfg) (lineWidth opts),
       lineOpacity = assigned (cfg_lineOpacity cfg) (lineOpacity opts),
       fillColor = assigned (cfg_fillColor cfg) (fillColor opts),
       fillOpacity = assigned (cfg_fillOpacity cfg) (fillOpacity opts),
       toggleDisplay = assigned (cfg_toggleDisplay cfg) (toggleDisplay opts),
       dragPan = assigned (cfg_dragPan cfg) (dragPan opts),
       scrollZoom = assigned (cfg_scrollZoom cfg) (scrollZoom opts),
       boxZoom = assigned (cfg_boxZoom cfg) (boxZoom opts),
       dragRotate = assigned (cfg_dragRotate cfg) (dragRotate opts),
       keyboard = assigned (cfg_keyboard cfg) (keyboard opts),
       doubleClickZoom = assigned (cfg_doubleClickZoom cfg) (doubleClickZoom opts),
       touchZoomRotate = assigned (cfg_touchZoomRotate cfg) (touchZoomRotate opts),
       disableMinimapMoveOnDrag =
         assigned (cfg_disableMinimapMoveOnDrag cfg) (disableMinimapMoveOnDrag opts),
       enableResize = assigned (cfg_enableResize cfg) (enableResize opts),
       enableMove = assigned (cfg_enableMove cfg) (enableMove opts),
       maxBounds = (case cfg_maxBounds cfg of Some v \<Rightarrow> Some v | None \<Rightarrow> maxBounds opts),
       containerClass =
         (case cfg_containerClass cfg of Some v \<Rightarrow> Some v | None \<Rightarrow> containerClass opts) \<rparr>"

section \<open>State of the control\<close>

text \<open>The fields of \<open>Minimap\<close> that the synchronisation reads or writes. \<open>has_map\<close>,
  \<open>has_minimap\<close> and \<open>has_minimapCanvas\<close> say that \<open>this.map\<close>, \<open>this.minimap\<close> and
  \<open>this.minimapCanvas\<close> are not null. The two points are the arrays \<open>[lng, lat]\<close>. The
  container, the toggle button and \<open>isCollapsed\<close> belong to the widget's layout and are
  left out. \<open>calls\<close> is the log of what has been asked of the engine.\<close>

record state =
  options :: MinimapOptions
  has_map :: bool
  has_minimap :: bool
  has_minimapCanvas :: bool
  trackingRect :: "source option"
  isDragging :: bool
  isCursorOverFeature :: bool
  currentPoint :: "real \<times> real"
  previousPoint :: "real \<times> real"
  trackingRectCoordinates :: coordinates
  calls :: "call list"

definition constructor :: "MinimapConfig option \<Rightarrow> state" where
  "constructor config =
     \<lparr> options = (case config of None \<Rightarrow> default_options
                               | Some cfg \<Rightarrow> object_assign default_options cfg),
       has_map = False,
       has_minimap = False,
       has_minimapCanvas = False,
       trackingRect = None,
       isDragging = False,
       isCursorOverFeature = False,
       currentPoint = (0, 0),
       previousPoint = (0, 0),
       trackingRectCoordinates = [[[], [], [], [], []]],
       calls = [] \<rparr>"

section \<open>The tracking polygon\<close>

text \<open>\<open>p[0] = x; p[1] = y\<close> on the array \<open>p\<close>: an entry that exists is overwritten, one that
  does not is appended (index 0 is written first, so index 1 is never beyond the end).\<close>

fun assign01 :: "real list \<Rightarrow> real \<Rightarrow> real \<Rightarrow> real list" where
  "assign01 [] x y = [x, y]"
| "assign01 [a] x y = [x, y]"
| "assign01 (a # b # rest) x y = x # y # rest"

text \<open>\<open>convertBoundsToPoints\<close> writes the five corners into \<open>trc[0][0] .. trc[0][4]\<close> in
  place. Reading \<open>trc[0]\<close> or \<open>trc[0][k]\<close> where there is none raises a TypeError.\<close>

definition convertBoundsToPoints :: "LngLatBounds \<Rightarrow> coordinates \<Rightarrow> error + coordinates" where
  "convertBoundsToPoints b trc =
     (case trc of
        [] \<Rightarrow> Inl TypeError
      | ring # rest \<Rightarrow>
          if length ring < 5 then Inl TypeError
          else Inr (ring
            [0 := assign01 (ring ! 0) (lng (ne b)) (lat (ne b)),
             1 := assign01 (ring ! 1) (lng (sw b)) (lat (ne b)),
             2 := assign01 (ring ! 2) (lng (sw b)) (lat (sw b)),
             3 := assign01 (ring ! 3) (lng (ne b)) (lat (sw b)),
             4 := assign01 (ring ! 4) (lng (ne b)) (lat (ne b))] # rest))"

text \<open>The shape the constructor gives \<open>trackingRectCoordinates\<close>, \<open>[[[], [], [], [], []]]\<close> and
  every later value has: one ring of five points with at most two entries each.\<close>

definition ring5 :: "coordinates \<Rightarrow> bool" where
  "ring5 trc = (length trc = 1 \<and> length (hd trc) = 5 \<and> list_all (\<lambda>p. length p \<le> 2) (hd trc))"

section \<open>Following the primary map\<close>

text \<open>\<open>zoomAdjust\<close>; \<open>zoom\<close> is what \<open>this.map.getZoom()\<close> returns.\<close>

definition zoomAdjust :: "real \<Rightarrow> state \<Rightarrow> state" where
  "zoomAdjust zoom st =
     (if has_minimap st \<and> has_map st
      then st\<lparr>calls := calls st @ [SetZoom (zoom + zoomLevelOffset (options st))]\<rparr>
      else st)"

text \<open>\<open>setTrackingRectBounds\<close>; \<open>b\<close> is the object \<open>this.map.getBounds()\<close> returns. Writing
  \<open>data.properties.bounds\<close> when \<open>source._data\<close> is missing raises a TypeError.\<close>

definition setTrackingRectBounds :: "LngLatBounds \<Rightarrow> state \<Rightarrow> error + state" where
  "setTrackingRectBounds b st =
     (if \<not> has_map st then Inr st
      else case trackingRect st of
        None \<Rightarrow> Inr st
      | Some src \<Rightarrow>
          (case data src of
             None \<Rightarrow> Inl TypeError
           | Some d \<Rightarrow>
               (case convertBoundsToPoints b (trackingRectCoordinates st) of
                  Inl e \<Rightarrow> Inl e
                | Inr trc \<Rightarrow>
                    Inr (st\<lparr>trackingRect := Some (Source (Some (d\<lparr>bounds := Some b\<rparr>))),
                            trackingRectCoordinates := trc,
                            calls := calls st @ [SetData (Some b) trc]\<rparr>))))"

text \<open>\<open>update\<close>, the listener of the primary map's \<open>move\<close> event.\<close>

definition update :: "real \<Rightarrow> LngLatBounds \<Rightarrow> state \<Rightarrow> error + state" where
  "update zoom b st =
     (if isDragging st then Inr st
      else setTrackingRectBounds b (zoomAdjust zoom st))"

text \<open>\<open>mapMoved\<close>, the listener of \<open>moveend\<close>; \<open>c\<close> is what \<open>this.map.getCenter()\<close> returns.\<close>

definition mapMoved :: "LngLat \<Rightarrow> state \<Rightarrow> state" where
  "mapMoved c st =
     (if has_minimap st \<and> has_map st then st\<lparr>calls := calls st @ [SetCenter c]\<rparr> else st)"

section \<open>Dragging the rectangle\<close>

text \<open>The part of a \<open>MapMouseEvent\<close> (declared in \<open>./types\<close>) the handlers read: the
  geo-coordinate. The screen point \<open>e.point\<close> is only handed to the engine's hit test, whose
  answer is a parameter of \<open>mouseMove\<close>.\<close>

record MapMouseEvent =
  lngLat :: LngLat

definition mouseDown :: "MapMouseEvent \<Rightarrow> state \<Rightarrow> state" where
  "mouseDown e st =
     (if isCursorOverFeature st
      then st\<lparr>isDragging := True,
              previousPoint := currentPoint st,
              currentPoint := (lng (lngLat e), lat (lngLat e))\<rparr>
      else st)"

text \<open>\<open>moveTrackingRect\<close> of \<open>src/minimap.ts\<close>; \<open>offset\<close> is the array \<open>[offset[0], offset[1]]\<close>.
  The result is the new state and the value returned: the bounds object, or \<open>undefined\<close>
  (\<open>None\<close>) after an early return. Reading \<open>bounds._ne\<close> when \<open>properties.bounds\<close> is
  absent raises a TypeError.\<close>

definition moveTrackingRect ::
    "real \<times> real \<Rightarrow> state \<Rightarrow> error + (state \<times> LngLatBounds option)" where
  "moveTrackingRect offset st =
     (case trackingRect st of
        None \<Rightarrow> Inr (st, None)
      | Some src \<Rightarrow>
          (case data src of
             None \<Rightarrow> Inr (st, None)
           | Some d \<Rightarrow>
               (case bounds d of
                  None \<Rightarrow> Inl TypeError
                | Some b \<Rightarrow>
                    let moved = \<lparr> ne = \<lparr> lng = lng (ne b) - fst offset,
                                           lat = lat (ne b) - snd offset \<rparr>,
                                    sw = \<lparr> lng = lng (sw b) - fst offset,
                                           lat = lat (sw b) - snd offset \<rparr> \<rparr>;
                        restricted = \<lparr> ne = \<lparr> lng = min (lng (ne moved)) 180,
                                                lat = min (lat (ne moved)) 90 \<rparr>,
                                         sw = \<lparr> lng = max (lng (sw moved)) (- 180),
                                                lat = max (lat (sw moved)) (- 90) \<rparr> \<rparr>
                    in Inr (st\<lparr>trackingRect :=
                                  Some (Source (Some (d\<lparr>bounds := Some restricted\<rparr>))),
                               calls := calls st
                                  @ [SetData (Some restricted) (trackingRectCoordinates st)]\<rparr>,
                            Some restricted))))"

text \<open>\<open>moveTrackingRect\<close> of the second copy of the file (\<open>unnamed/part_000\<close>): the same,
  with a call of \<open>convertBoundsToPoints\<close> between the translation and the restriction.\<close>

definition moveTrackingRect_part000 ::
    "real \<times> real \<Rightarrow> state \<Rightarrow> error + (state \<times> LngLatBounds option)" where
  "moveTrackingRect_part000 offset st =
     (case trackingRect st of
        None \<Rightarrow> Inr (st, None)
      | Some src \<Rightarrow>
          (case data src of
             None \<Rightarrow> Inr (st, None)
           | Some d \<Rightarrow>
               (case bounds d of
                  None \<Rightarrow> Inl TypeError
                | Some b \<Rightarrow>
                    let moved = \<lparr> ne = \<lparr> lng = lng (ne b) - fst offset,
                                           lat = lat (ne b) - snd offset \<rparr>,
                                    sw = \<lparr> lng = lng (sw b) - fst offset,
                                           lat = lat (sw b) - snd offset \<rparr> \<rparr>
                    in (case convertBoundsToPoints moved (trackingRectCoordinates st) of
                          Inl e \<Rightarrow> Inl e
                        | Inr trc \<Rightarrow>
                            let restricted = \<lparr> ne = \<lparr> lng = min (lng (ne moved)) 180,
                                                        lat = min (lat (ne moved)) 90 \<rparr>,
                                                 sw = \<lparr> lng = max (lng (sw moved)) (- 180),
                                                        lat = max (lat (sw moved)) (- 90) \<rparr> \<rparr>
                            in Inr (st\<lparr>trackingRect :=
                                          Some (Source (Some (d\<lparr>bounds := Some restricted\<rparr>))),
                                       trackingRectCoordinates := trc,
                                       calls := calls st @ [SetData (Some restricted) trc]\<rparr>,
                                    Some restricted)))))"

text \<open>\<open>mouseMove\<close>, the same text in both copies; \<open>mtr\<close> is the copy's \<open>moveTrackingRect\<close> and
  \<open>features\<close> the length of the array \<open>queryRenderedFeatures\<close> returns for \<open>e.point\<close>.\<close>

definition mouseMove_with ::
    "(real \<times> real \<Rightarrow> state \<Rightarrow> error + (state \<times> LngLatBounds option)) \<Rightarrow>
     MapMouseEvent \<Rightarrow> nat \<Rightarrow> state \<Rightarrow> error + state" where
  "mouseMove_with mtr e features st =
     (if \<not> has_minimapCanvas st \<or> \<not> has_minimap st \<or> \<not> has_map st then Inr st
      else
        let st1 =
              (if \<not> (isCursorOverFeature st \<and> features > 0)
               then st\<lparr>isCursorOverFeature := (features > 0),
                       calls := calls st @ [SetCursor (if features > 0 then ''move'' else [])]\<rparr>
               else st)
        in if isDragging st1
           then
             let st2 = st1\<lparr>previousPoint := currentPoint st1,
                           currentPoint := (lng (lngLat e), lat (lngLat e))\<rparr>;
                 offset = (fst (previousPoint st2) - fst (currentPoint st2),
                           snd (previousPoint st2) - snd (currentPoint st2))
             in (case mtr offset st2 of
                   Inl err \<Rightarrow> Inl err
                 | Inr (st3, newBounds) \<Rightarrow>
                     if \<not> disableMinimapMoveOnDrag (options st3)
                     then Inr (st3\<lparr>calls := calls st3 @ [FitBounds newBounds 80]\<rparr>)
                     else Inr st3)
           else Inr st1)"

definition mouseMove :: "MapMouseEvent \<Rightarrow> nat \<Rightarrow> state \<Rightarrow> error + state" where
  "mouseMove = mouseMove_with moveTrackingRect"

definition mouseMove_part000 :: "MapMouseEvent \<Rightarrow> nat \<Rightarrow> state \<Rightarrow> error + state" where
  "mouseMove_part000 = mouseMove_with moveTrackingRect_part000"

text \<open>\<open>mouseUp\<close>, the same in both copies. Reading \<open>trackingRectData.properties\<close> when
  \<open>_data\<close> is missing raises a TypeError.\<close>

definition mouseUp :: "state \<Rightarrow> error + state" where
  "mouseUp st =
     (if isDragging st
      then
        let st1 = st\<lparr>isDragging := False\<rparr>
        in (case trackingRect st1 of
              None \<Rightarrow> Inr st1
            | Some src \<Rightarrow>
                if has_map st1 \<and> has_minimap st1
                then (case data src of
                        None \<Rightarrow> Inl TypeError
                      | Some d \<Rightarrow>
                          Inr (st1\<lparr>calls := calls st1
                                     @ [MapOff ''move'', FitBounds (bounds d) 500]\<rparr>))
                else Inr st1)
      else Inr st)"

section \<open>Loading the inset map\<close>

definition interactions :: "string list" where
  "interactions =
     [''dragPan'', ''scrollZoom'', ''boxZoom'', ''dragRotate'', ''keyboard'',
      ''doubleClickZoom'', ''touchZoomRotate'']"

text \<open>\<open>opts[interaction]\<close> as a truth value; \<open>load\<close> asks for the seven names above only.\<close>

definition option_enabled :: "MinimapOptions \<Rightarrow> string \<Rightarrow> bool" where
  "option_enabled opts name =
     (if name = ''dragPan'' then dragPan opts
      else if name = ''scrollZoom'' then scrollZoom opts
      else if name = ''boxZoom'' then boxZoom opts
      else if name = ''dragRotate'' then dragRotate opts
      else if name = ''keyboard'' then keyboard opts
      else if name = ''doubleClickZoom'' then doubleClickZoom opts
      else if name = ''touchZoomRotate'' then touchZoomRotate opts
      else False)"

text \<open>The loop of \<open>load\<close> over the interactions: the calls it makes, in order.\<close>

fun disable_unwanted :: "MinimapOptions \<Rightarrow> string list \<Rightarrow> call list" where
  "disable_unwanted opts [] = []"
| "disable_unwanted opts (interaction # rest) =
     (if \<not> option_enabled opts interaction then [Disable interaction] else [])
       @ disable_unwanted opts rest"

text \<open>What \<open>load\<close> reads from the two maps: zoom and bounds of the primary map, whether the
  inset map already has the two layers and the source, the source \<open>getSource\<close> returns
  after \<open>addSource\<close>, and whether \<open>getCanvasContainer\<close> returns an element.\<close>

record load_env =
  env_zoom :: real
  env_bounds :: LngLatBounds
  env_hasOutline :: bool
  env_hasFill :: bool
  env_hasSource :: bool
  env_source :: "source option"
  env_canvasContainer :: bool

text \<open>\<open>load\<close> of \<open>src/minimap.ts\<close>. A null \<open>this.minimap\<close> raises a TypeError at the first
  call on it, a null \<open>this.map\<close> at \<open>map.on\<close>.\<close>

definition load :: "load_env \<Rightarrow> state \<Rightarrow> error + state" where
  "load env st =
     (if \<not> has_minimap st then Inl TypeError
      else
        let opts = options st;
            st1 = st\<lparr>calls := calls st
                     @ disable_unwanted opts interactions
                     @ (if env_hasOutline env then [RemoveLayer ''trackingRectOutline''] else [])
                     @ (if env_hasFill env then [RemoveLayer ''trackingRectFill''] else [])
                     @ (if env_hasSource env then [RemoveSource ''trackingRect''] else [])
                     @ [AddSource ''trackingRect'' (trackingRectCoordinates st),
                        AddLineLayer ''trackingRectOutline'' ''trackingRect''
                          (lineColor opts) (lineWidth opts) (lineOpacity opts),
                        AddFillLayer ''trackingRectFill'' ''trackingRect''
                          (fillColor opts) (fillOpacity opts)],
                   trackingRect := env_source env\<rparr>
        in (case update (env_zoom env) (env_bounds env) st1 of
              Inl e \<Rightarrow> Inl e
            | Inr st2 \<Rightarrow>
                if \<not> has_map st2 then Inl TypeError
                else
                  let st3 = st2\<lparr>calls := calls st2
                                  @ [MapOn ''move'', MapOn ''moveend'', MinimapOn ''mousemove'',
                                     MinimapOn ''mousedown'', MinimapOn ''mouseup''],
                                has_minimapCanvas := env_canvasContainer env\<rparr>
                  in Inr (if has_minimapCanvas st3
                          then st3\<lparr>calls := calls st3 @ [CanvasAddEventListener ''wheel'']\<rparr>
                          else st3)))"

section \<open>Events\<close>

text \<open>The events the control listens to once loaded, each with what its handler reads from
  the engine, and the handler each one runs.\<close>

datatype event =
    Move real LngLatBounds
  | MoveEnd LngLat
  | MouseMove MapMouseEvent nat
  | MouseDown MapMouseEvent
  | MouseUp

fun handle :: "event \<Rightarrow> state \<Rightarrow> error + state" where
  "handle (Move zoom b) st = update zoom b st"
| "handle (MoveEnd c) st = Inr (mapMoved c st)"
| "handle (MouseMove e features) st = mouseMove e features st"
| "handle (MouseDown e) st = Inr (mouseDown e st)"
| "handle MouseUp st = mouseUp st"

text \<open>A sequence of events, in delivery order, up to the first handler that throws.\<close>

fun run :: "event list \<Rightarrow> state \<Rightarrow> error + state" where
  "run [] st = Inr st"
| "run (ev # evs) st = (case handle ev st of Inl e \<Rightarrow> Inl e | Inr st' \<Rightarrow> run evs st')"

section \<open>States used below\<close>

text \<open>The state of a loaded control: \<open>onAdd\<close> has stored both maps, and \<open>load\<close> has
  stored a source whose data holds bounds. \<open>moveTrackingRect\<close> and \<open>mouseUp\<close> read those
  bounds without a check.\<close>

definition ready :: "state \<Rightarrow> bool" where
  "ready st =
     (has_map st \<and> has_minimap st \<and> ring5 (trackingRectCoordinates st) \<and>
      (case trackingRect st of
         Some (Source (Some d)) \<Rightarrow> bounds d \<noteq> None
       | _ \<Rightarrow> False))"

text \<open>A loaded control with default options whose rectangle shows the bounds \<open>b\<close>, with the
  pointer over the rectangle and last seen at \<open>p\<close>.\<close>

abbreviation (input) example_state :: "LngLatBounds \<Rightarrow> real \<times> real \<Rightarrow> bool \<Rightarrow> state" where
  "example_state b p dragging \<equiv>
     (constructor None)
       \<lparr> has_map := True, has_minimap := True, has_minimapCanvas := True,
         trackingRect := Some (Source (Some \<lparr> bounds = Some b \<rparr>)),
         isDragging := dragging, isCursorOverFeature := True, currentPoint := p,
         trackingRectCoordinates :=
           [[[lng (ne b), lat (ne b)], [lng (sw b), lat (ne b)], [lng (sw b), lat (sw b)],
             [lng (ne b), lat (sw b)], [lng (ne b), lat (ne b)]]] \<rparr>"

section \<open>Properties of the polygon\<close>

lemma assign01_short: "length p \<le> 2 \<Longrightarrow> assign01 p x y = [x, y]"
  by (cases "(p, x, y)" rule: assign01.cases) auto

lemma ring5_cases:
  assumes "ring5 trc"
  obtains p0 p1 p2 p3 p4 where "trc = [[p0, p1, p2, p3, p4]]"
    and "length p0 \<le> 2" "length p1 \<le> 2" "length p2 \<le> 2" "length p3 \<le> 2" "length p4 \<le> 2"
proof -
  from assms obtain r where r: "trc = [r]" "length r = 5" "list_all (\<lambda>p. length p \<le> 2) r"
    by (cases trc) (auto simp: ring5_def)
  from r(2) obtain p0 p1 p2 p3 p4 where "r = [p0, p1, p2, p3, p4]"
    by (auto simp: length_Suc_conv eval_nat_numeral)
  with r show ?thesis using that by auto
qed

lemma convertBoundsToPoints_ring5:
  assumes "ring5 trc"
  shows "convertBoundsToPoints b trc =
    Inr [[[lng (ne b), lat (ne b)], [lng (sw b), lat (ne b)], [lng (sw b), lat (sw b)],
          [lng (ne b), lat (sw b)], [lng (ne b), lat (ne b)]]]"
  using assms
  by (elim ring5_cases) (simp add: convertBoundsToPoints_def assign01_short)

lemma ring5_constructor: "ring5 (trackingRectCoordinates (constructor config))"
  by (simp add: constructor_def ring5_def)

lemma constructor_idle:
  "\<not> isDragging (constructor config) \<and> \<not> isCursorOverFeature (constructor config)"
  by (simp add: constructor_def)

lemma ring5_convertBoundsToPoints:
  "ring5 trc \<Longrightarrow> convertBoundsToPoints b trc = Inr trc' \<Longrightarrow> ring5 trc'"
  by (simp add: convertBoundsToPoints_ring5) (auto simp: ring5_def)

lemmas example_simps = constructor_def default_options_def

text \<open>C2: for every bounds \<open>b\<close>, \<open>convertBoundsToPoints\<close> leaves a polygon of one ring with
  exactly five points, the first equal to the last, which are in order (NE.lng, NE.lat),
  (SW.lng, NE.lat), (SW.lng, SW.lat), (NE.lng, SW.lat), (NE.lng, NE.lat). The array written
  into is the control's own, of the shape the constructor gives it.\<close>

theorem convertBoundsToPoints_polygon:
  assumes "ring5 trc"
  shows "\<exists>ring. convertBoundsToPoints b trc = Inr [ring] \<and> length ring = 5 \<and> hd ring = last ring
           \<and> ring = [[lng (ne b), lat (ne b)], [lng (sw b), lat (ne b)], [lng (sw b), lat (sw b)],
                     [lng (ne b), lat (sw b)], [lng (ne b), lat (ne b)]]"
  using assms by (simp add: convertBoundsToPoints_ring5)

theorem convertBoundsToPoints_polygon_witness:
  "ring5 [[[], [], [], [], []]] \<and>
   (\<exists>ring. convertBoundsToPoints \<lparr> ne = \<lparr> lng = 10, lat = 10 \<rparr>, sw = \<lparr> lng = - 10, lat = - 10 \<rparr> \<rparr>
       [[[], [], [], [], []]] = Inr [ring] \<and> length ring = 5 \<and> hd ring = last ring
       \<and> ring = [[10, 10], [- 10, 10], [- 10, - 10], [10, - 10], [10, 10]])"
proof -
  have h: "ring5 [[[], [], [], [], []]]" by (simp add: ring5_def)
  show ?thesis
    using h convertBoundsToPoints_polygon
      [OF h, of "\<lparr> ne = \<lparr> lng = 10, lat = 10 \<rparr>, sw = \<lparr> lng = - 10, lat = - 10 \<rparr> \<rparr>"]
    by simp
qed

section \<open>Following the primary map: properties\<close>

text \<open>C7: while a drag is in progress \<open>update\<close> does nothing: it returns the state it was
  given, so the stored bounds, the polygon and the log of calls to the inset map (which
  holds every \<open>setZoom\<close> and \<open>setData\<close>) are as before.\<close>

theorem update_noop_while_dragging:
  assumes "isDragging st"
  shows "update zoom b st = Inr st"
  using assms by (simp add: update_def)

theorem update_noop_while_dragging_witness:
  "isDragging (example_state \<lparr> ne = \<lparr> lng = 10, lat = 10 \<rparr>, sw = \<lparr> lng = - 10, lat = - 10 \<rparr> \<rparr>
       (0, 0) True)
   \<and> update 7 \<lparr> ne = \<lparr> lng = 30, lat = 20 \<rparr>, sw = \<lparr> lng = 20, lat = 10 \<rparr> \<rparr>
       (example_state \<lparr> ne = \<lparr> lng = 10, lat = 10 \<rparr>, sw = \<lparr> lng = - 10, lat = - 10 \<rparr> \<rparr> (0, 0) True)
     = Inr (example_state \<lparr> ne = \<lparr> lng = 10, lat = 10 \<rparr>, sw = \<lparr> lng = - 10, lat = - 10 \<rparr> \<rparr>
         (0, 0) True)"
  using update_noop_while_dragging
    [of "example_state \<lparr> ne = \<lparr> lng = 10, lat = 10 \<rparr>, sw = \<lparr> lng = - 10, lat = - 10 \<rparr> \<rparr> (0, 0) True"
        7 "\<lparr> ne = \<lparr> lng = 30, lat = 20 \<rparr>, sw = \<lparr> lng = 20, lat = 10 \<rparr> \<rparr>"]
  by (simp add: example_simps)


text \<open>C9: outside a drag, on a loaded control, \<open>update\<close> sets the inset zoom to the
  primary zoom plus \<open>zoomLevelOffset\<close>, stores the primary bounds, rewrites the polygon to
  their five corners and pushes it to the inset source. With zoom 5, offset -3 and bounds
  NE(10,10)/SW(-10,-10) the zoom asked for is 2 and the corners are (10,10),
  (-10,10), (-10,-10), (10,-10), (10,10).\<close>

theorem update_sets_zoom_and_rectangle:
  assumes "\<not> isDragging st" and "has_map st" and "has_minimap st"
    and "trackingRect st = Some (Source (Some d))"
    and "ring5 (trackingRectCoordinates st)"
  shows "update zoom b st =
    Inr (st\<lparr>trackingRect := Some (Source (Some (d\<lparr>bounds := Some b\<rparr>))),
            trackingRectCoordinates :=
              [[[lng (ne b), lat (ne b)], [lng (sw b), lat (ne b)], [lng (sw b), lat (sw b)],
                [lng (ne b), lat (sw b)], [lng (ne b), lat (ne b)]]],
            calls := calls st @
              [SetZoom (zoom + zoomLevelOffset (options st)),
               SetData (Some b)
                 [[[lng (ne b), lat (ne b)], [lng (sw b), lat (ne b)], [lng (sw b), lat (sw b)],
                   [lng (ne b), lat (sw b)], [lng (ne b), lat (ne b)]]]]\<rparr>)"
  using assms
  by (simp add: update_def setTrackingRectBounds_def zoomAdjust_def convertBoundsToPoints_ring5)

theorem update_sets_zoom_and_rectangle_witness:
  "\<not> isDragging ((constructor None)\<lparr>has_map := True, has_minimap := True,
        trackingRect := Some (Source (Some \<lparr> bounds = None \<rparr>))\<rparr>)
   \<and> has_map ((constructor None)\<lparr>has_map := True, has_minimap := True,
        trackingRect := Some (Source (Some \<lparr> bounds = None \<rparr>))\<rparr>)
   \<and> has_minimap ((constructor None)\<lparr>has_map := True, has_minimap := True,
        trackingRect := Some (Source (Some \<lparr> bounds = None \<rparr>))\<rparr>)
   \<and> trackingRect ((constructor None)\<lparr>has_map := True, has_minimap := True,
        trackingRect := Some (Source (Some \<lparr> bounds = None \<rparr>))\<rparr>)
       = Some (Source (Some \<lparr> bounds = None \<rparr>))
   \<and> ring5 (trackingRectCoordinates ((constructor None)\<lparr>has_map := True, has_minimap := True,
        trackingRect := Some (Source (Some \<lparr> bounds = None \<rparr>))\<rparr>))
   \<and> zoomLevelOffset (options (constructor None)) = - 3
   \<and> update 5 \<lparr> ne = \<lparr> lng = 10, lat = 10 \<rparr>, sw = \<lparr> lng = - 10, lat = - 10 \<rparr> \<rparr>
        ((constructor None)\<lparr>has_map := True, has_minimap := True,
           trackingRect := Some (Source (Some \<lparr> bounds = None \<rparr>))\<rparr>)
     = Inr ((constructor None)\<lparr>has_map := True, has_minimap := True,
           trackingRect := Some (Source (Some \<lparr> bounds = Some \<lparr> ne = \<lparr> lng = 10, lat = 10 \<rparr>, sw = \<lparr> lng = - 10, lat = - 10 \<rparr> \<rparr> \<rparr>)),
           trackingRectCoordinates := [[[10, 10], [- 10, 10], [- 10, - 10], [10, - 10], [10, 10]]],
           calls := [SetZoom 2,
                     SetData (Some \<lparr> ne = \<lparr> lng = 10, lat = 10 \<rparr>, sw = \<lparr> lng = - 10, lat = - 10 \<rparr> \<rparr>)
                       [[[10, 10], [- 10, 10], [- 10, - 10], [10, - 10], [10, 10]]]]\<rparr>)"
  using update_sets_zoom_and_rectangle
    [of "(constructor None)\<lparr>has_map := True, has_minimap := True,
           trackingRect := Some (Source (Some \<lparr> bounds = None \<rparr>))\<rparr>"
        "\<lparr> bounds = None \<rparr>" 5 "\<lparr> ne = \<lparr> lng = 10, lat = 10 \<rparr>, sw = \<lparr> lng = - 10, lat = - 10 \<rparr> \<rparr>"]
  by (simp add: example_simps ring5_def)

section \<open>Dragging the rectangle: properties\<close>

text \<open>C4: whatever the stored bounds and the offset, \<open>moveTrackingRect\<close> returns without
  an error, and the bounds it stores and returns are the stored ones translated by the
  offset and then restricted, with NE.lat at most 90, NE.lng at most 180, SW.lat at least
  -90 and SW.lng at least -180. The same holds of the second copy of the function.\<close>

theorem moveTrackingRect_restricted:
  assumes "trackingRect st = Some (Source (Some d))" and "bounds d = Some b"
  shows "(\<exists>st' b'. moveTrackingRect (dx, dy) st = Inr (st', Some b')
           \<and> trackingRect st' = Some (Source (Some (d\<lparr>bounds := Some b'\<rparr>)))
           \<and> b' = \<lparr> ne = \<lparr> lng = min (lng (ne b) - dx) 180, lat = min (lat (ne b) - dy) 90 \<rparr>,
                    sw = \<lparr> lng = max (lng (sw b) - dx) (- 180),
                           lat = max (lat (sw b) - dy) (- 90) \<rparr> \<rparr>
           \<and> lat (ne b') \<le> 90 \<and> lng (ne b') \<le> 180 \<and> - 90 \<le> lat (sw b') \<and> - 180 \<le> lng (sw b'))
      \<and> (ring5 (trackingRectCoordinates st) \<longrightarrow>
          (\<exists>st' b'. moveTrackingRect_part000 (dx, dy) st = Inr (st', Some b')
           \<and> trackingRect st' = Some (Source (Some (d\<lparr>bounds := Some b'\<rparr>)))
           \<and> b' = \<lparr> ne = \<lparr> lng = min (lng (ne b) - dx) 180, lat = min (lat (ne b) - dy) 90 \<rparr>,
                    sw = \<lparr> lng = max (lng (sw b) - dx) (- 180),
                           lat = max (lat (sw b) - dy) (- 90) \<rparr> \<rparr>
           \<and> lat (ne b') \<le> 90 \<and> lng (ne b') \<le> 180 \<and> - 90 \<le> lat (sw b') \<and> - 180 \<le> lng (sw b')))"
  using assms
  by (simp add: moveTrackingRect_def moveTrackingRect_part000_def Let_def
      convertBoundsToPoints_ring5)

theorem moveTrackingRect_restricted_witness:
  "trackingRect (example_state \<lparr> ne = \<lparr> lng = 10, lat = 10 \<rparr>, sw = \<lparr> lng = - 10, lat = - 10 \<rparr> \<rparr> (0, 0) True) = Some (Source (Some \<lparr> bounds = Some \<lparr> ne = \<lparr> lng = 10, lat = 10 \<rparr>, sw = \<lparr> lng = - 10, lat = - 10 \<rparr> \<rparr> \<rparr>))
   \<and> bounds \<lparr> bounds = Some \<lparr> ne = \<lparr> lng = 10, lat = 10 \<rparr>, sw = \<lparr> lng = - 10, lat = - 10 \<rparr> \<rparr> \<rparr> = Some \<lparr> ne = \<lparr> lng = 10, lat = 10 \<rparr>, sw = \<lparr> lng = - 10, lat = - 10 \<rparr> \<rparr>
   \<and> ring5 (trackingRectCoordinates (example_state \<lparr> ne = \<lparr> lng = 10, lat = 10 \<rparr>, sw = \<lparr> lng = - 10, lat = - 10 \<rparr> \<rparr> (0, 0) True))
   \<and> (\<exists>st'. moveTrackingRect (5, 0) (example_state \<lparr> ne = \<lparr> lng = 10, lat = 10 \<rparr>, sw = \<lparr> lng = - 10, lat = - 10 \<rparr> \<rparr> (0, 0) True)
        = Inr (st', Some \<lparr> ne = \<lparr> lng = 5, lat = 10 \<rparr>, sw = \<lparr> lng = - 15, lat = - 10 \<rparr> \<rparr>))
   \<and> (\<exists>st'. moveTrackingRect_part000 (5, 0) (example_state \<lparr> ne = \<lparr> lng = 10, lat = 10 \<rparr>, sw = \<lparr> lng = - 10, lat = - 10 \<rparr> \<rparr> (0, 0) True)
        = Inr (st', Some \<lparr> ne = \<lparr> lng = 5, lat = 10 \<rparr>, sw = \<lparr> lng = - 15, lat = - 10 \<rparr> \<rparr>))"
  using moveTrackingRect_restricted
    [of "example_state \<lparr> ne = \<lparr> lng = 10, lat = 10 \<rparr>, sw = \<lparr> lng = - 10, lat = - 10 \<rparr> \<rparr> (0, 0) True" "\<lparr> bounds = Some \<lparr> ne = \<lparr> lng = 10, lat = 10 \<rparr>, sw = \<lparr> lng = - 10, lat = - 10 \<rparr> \<rparr> \<rparr>" "\<lparr> ne = \<lparr> lng = 10, lat = 10 \<rparr>, sw = \<lparr> lng = - 10, lat = - 10 \<rparr> \<rparr>" 5 0]
  by (auto simp: example_simps ring5_def)

text \<open>C1, evaluated at a drag that reaches the antimeridian: the control shows
  NE(170,10)/SW(150,-10), the pointer was last seen at (160,0) and moves to (180,0). The
  offset is (160,0) - (180,0) = (-20,0); the stored bounds become NE(180,10)/SW(170,-10),
  translated and restricted. In \<open>src/minimap.ts\<close> the polygon pushed to the inset source is
  the old one, (170,10), (150,10), ..: \<open>moveTrackingRect\<close> does not call
  \<open>convertBoundsToPoints\<close>. In the second copy the polygon is that of the translated bounds
  before the restriction, (190,10), (170,10), ... Neither is the polygon of
  NE(180,10)/SW(170,-10).\<close>

theorem mouseMove_polygon_not_regenerated:
  "mouseMove \<lparr> lngLat = \<lparr> lng = 180, lat = 0 \<rparr> \<rparr> 1
      (example_state \<lparr> ne = \<lparr> lng = 170, lat = 10 \<rparr>, sw = \<lparr> lng = 150, lat = - 10 \<rparr> \<rparr> (160, 0) True)
    = Inr ((example_state \<lparr> ne = \<lparr> lng = 170, lat = 10 \<rparr>, sw = \<lparr> lng = 150, lat = - 10 \<rparr> \<rparr>
             (160, 0) True)
        \<lparr> previousPoint := (160, 0), currentPoint := (180, 0),
          trackingRect := Some (Source (Some \<lparr> bounds =
             Some \<lparr> ne = \<lparr> lng = 180, lat = 10 \<rparr>, sw = \<lparr> lng = 170, lat = - 10 \<rparr> \<rparr> \<rparr>)),
          calls :=
            [SetData (Some \<lparr> ne = \<lparr> lng = 180, lat = 10 \<rparr>, sw = \<lparr> lng = 170, lat = - 10 \<rparr> \<rparr>)
               [[[170, 10], [150, 10], [150, - 10], [170, - 10], [170, 10]]],
             FitBounds (Some \<lparr> ne = \<lparr> lng = 180, lat = 10 \<rparr>, sw = \<lparr> lng = 170, lat = - 10 \<rparr> \<rparr>)
               80] \<rparr>)
   \<and> mouseMove_part000 \<lparr> lngLat = \<lparr> lng = 180, lat = 0 \<rparr> \<rparr> 1
      (example_state \<lparr> ne = \<lparr> lng = 170, lat = 10 \<rparr>, sw = \<lparr> lng = 150, lat = - 10 \<rparr> \<rparr> (160, 0) True)
    = Inr ((example_state \<lparr> ne = \<lparr> lng = 170, lat = 10 \<rparr>, sw = \<lparr> lng = 150, lat = - 10 \<rparr> \<rparr>
             (160, 0) True)
        \<lparr> previousPoint := (160, 0), currentPoint := (180, 0),
          trackingRect := Some (Source (Some \<lparr> bounds =
             Some \<lparr> ne = \<lparr> lng = 180, lat = 10 \<rparr>, sw = \<lparr> lng = 170, lat = - 10 \<rparr> \<rparr> \<rparr>)),
          trackingRectCoordinates :=
            [[[190, 10], [170, 10], [170, - 10], [190, - 10], [190, 10]]],
          calls :=
            [SetData (Some \<lparr> ne = \<lparr> lng = 180, lat = 10 \<rparr>, sw = \<lparr> lng = 170, lat = - 10 \<rparr> \<rparr>)
               [[[190, 10], [170, 10], [170, - 10], [190, - 10], [190, 10]]],
             FitBounds (Some \<lparr> ne = \<lparr> lng = 180, lat = 10 \<rparr>, sw = \<lparr> lng = 170, lat = - 10 \<rparr> \<rparr>)
               80] \<rparr>)"
  by (simp add: mouseMove_def mouseMove_part000_def mouseMove_with_def moveTrackingRect_def
      moveTrackingRect_part000_def convertBoundsToPoints_def Let_def example_simps)

text \<open>C3, evaluated at a drag towards the south pole: the stored bounds
  NE(10,-80)/SW(-10,-85) have every longitude in [-180,180], every latitude in [-90,90] and
  NE.lat above SW.lat. With the offset (0,20), \<open>moveTrackingRect\<close> stores
  NE(10,-100)/SW(-10,-90): the north-east corner is only bounded from above and the
  south-west corner only from below, so NE.lat is below -90 and below SW.lat. Pointer
  events alone lead there: on a control showing NE(10,-60)/SW(-10,-85), two drags from
  latitude -62 to latitude -84, over the polygon that \<open>src/minimap.ts\<close> leaves where it
  was, end with NE(10,-104)/SW(-10,-90) stored.\<close>

theorem moveTrackingRect_breaks_invariant:
  "moveTrackingRect (0, 20)
       (example_state \<lparr> ne = \<lparr> lng = 10, lat = - 80 \<rparr>, sw = \<lparr> lng = - 10, lat = - 85 \<rparr> \<rparr>
          (0, - 82) True)
     = Inr ((example_state \<lparr> ne = \<lparr> lng = 10, lat = - 80 \<rparr>, sw = \<lparr> lng = - 10, lat = - 85 \<rparr> \<rparr>
              (0, - 82) True)
         \<lparr> trackingRect := Some (Source (Some \<lparr> bounds =
              Some \<lparr> ne = \<lparr> lng = 10, lat = - 100 \<rparr>, sw = \<lparr> lng = - 10, lat = - 90 \<rparr> \<rparr> \<rparr>)),
           calls :=
             [SetData (Some \<lparr> ne = \<lparr> lng = 10, lat = - 100 \<rparr>, sw = \<lparr> lng = - 10, lat = - 90 \<rparr> \<rparr>)
                [[[10, - 80], [- 10, - 80], [- 10, - 85], [10, - 85], [10, - 80]]]] \<rparr>,
        Some \<lparr> ne = \<lparr> lng = 10, lat = - 100 \<rparr>, sw = \<lparr> lng = - 10, lat = - 90 \<rparr> \<rparr>)
   \<and> lat (ne \<lparr> ne = \<lparr> lng = 10, lat = - 100 \<rparr>, sw = \<lparr> lng = - 10, lat = - 90 \<rparr> \<rparr>) < - 90
   \<and> lat (ne \<lparr> ne = \<lparr> lng = 10, lat = - 100 \<rparr>, sw = \<lparr> lng = - 10, lat = - 90 \<rparr> \<rparr>)
       < lat (sw \<lparr> ne = \<lparr> lng = 10, lat = - 100 \<rparr>, sw = \<lparr> lng = - 10, lat = - 90 \<rparr> \<rparr>)
   \<and> (case run [MouseDown \<lparr> lngLat = \<lparr> lng = 0, lat = - 62 \<rparr> \<rparr>,
                 MouseMove \<lparr> lngLat = \<lparr> lng = 0, lat = - 84 \<rparr> \<rparr> 1,
                 MouseUp,
                 MouseDown \<lparr> lngLat = \<lparr> lng = 0, lat = - 62 \<rparr> \<rparr>,
                 MouseMove \<lparr> lngLat = \<lparr> lng = 0, lat = - 84 \<rparr> \<rparr> 1]
             (example_state \<lparr> ne = \<lparr> lng = 10, lat = - 60 \<rparr>, sw = \<lparr> lng = - 10, lat = - 85 \<rparr> \<rparr>
                (0, - 62) False)
       of Inl e \<Rightarrow> None | Inr st' \<Rightarrow> trackingRect st')
      = Some (Source (Some \<lparr> bounds =
          Some \<lparr> ne = \<lparr> lng = 10, lat = - 104 \<rparr>, sw = \<lparr> lng = - 10, lat = - 90 \<rparr> \<rparr> \<rparr>))"
  by (simp add: moveTrackingRect_def mouseDown_def mouseUp_def mouseMove_def mouseMove_with_def
      Let_def example_simps)

text \<open>C6 as stated fails: with the pointer over the rectangle and last seen at (0,0), a
  pointer-down at (3,4) leaves (0,0), not (3,4), as the previous point.\<close>

theorem mouseDown_previous_is_old_current:
  "previousPoint (mouseDown \<lparr> lngLat = \<lparr> lng = 3, lat = 4 \<rparr> \<rparr> (example_state \<lparr> ne = \<lparr> lng = 10, lat = 10 \<rparr>, sw = \<lparr> lng = - 10, lat = - 10 \<rparr> \<rparr> (0, 0) False))
     = (0, 0)
   \<and> previousPoint (mouseDown \<lparr> lngLat = \<lparr> lng = 3, lat = 4 \<rparr> \<rparr> (example_state \<lparr> ne = \<lparr> lng = 10, lat = 10 \<rparr>, sw = \<lparr> lng = - 10, lat = - 10 \<rparr> \<rparr> (0, 0) False))
     \<noteq> (3, 4)"
  by (simp add: mouseDown_def example_simps)

text \<open>C6, amended: a pointer-down with the pointer over the rectangle begins a drag,
  records the event's geo-coordinate as the current point and the former current point as
  the previous point. On a loaded control the next pointer-move then has the pointer-down
  coordinate as its previous point, and translates the stored bounds by the pointer-down
  coordinate minus its own.\<close>

theorem mouseDown_records_point:
  assumes "isCursorOverFeature st"
  shows "mouseDown e st =
      st\<lparr>isDragging := True, previousPoint := currentPoint st,
         currentPoint := (lng (lngLat e), lat (lngLat e))\<rparr>
    \<and> (\<forall>d b. has_minimapCanvas st \<and> has_minimap st \<and> has_map st
          \<and> trackingRect st = Some (Source (Some d)) \<and> bounds d = Some b \<longrightarrow>
        (\<exists>st'. mouseMove e2 n (mouseDown e st) = Inr st'
           \<and> previousPoint st' = (lng (lngLat e), lat (lngLat e))
           \<and> currentPoint st' = (lng (lngLat e2), lat (lngLat e2))
           \<and> trackingRect st' = Some (Source (Some (d\<lparr>bounds := Some
               \<lparr> ne = \<lparr> lng = min (lng (ne b) - (lng (lngLat e) - lng (lngLat e2))) 180,
                        lat = min (lat (ne b) - (lat (lngLat e) - lat (lngLat e2))) 90 \<rparr>,
                 sw = \<lparr> lng = max (lng (sw b) - (lng (lngLat e) - lng (lngLat e2))) (- 180),
                        lat = max (lat (sw b) - (lat (lngLat e) - lat (lngLat e2))) (- 90) \<rparr> \<rparr>
               \<rparr>)))))"
  using assms
  by (auto simp: mouseDown_def mouseMove_def mouseMove_with_def moveTrackingRect_def Let_def)

theorem mouseDown_records_point_witness:
  "isCursorOverFeature (example_state \<lparr> ne = \<lparr> lng = 10, lat = 10 \<rparr>, sw = \<lparr> lng = - 10, lat = - 10 \<rparr> \<rparr> (0, 0) False)
   \<and> mouseDown \<lparr> lngLat = \<lparr> lng = 3, lat = 4 \<rparr> \<rparr> (example_state \<lparr> ne = \<lparr> lng = 10, lat = 10 \<rparr>, sw = \<lparr> lng = - 10, lat = - 10 \<rparr> \<rparr> (0, 0) False)
     = (example_state \<lparr> ne = \<lparr> lng = 10, lat = 10 \<rparr>, sw = \<lparr> lng = - 10, lat = - 10 \<rparr> \<rparr> (0, 0) False)
         \<lparr> isDragging := True, previousPoint := (0, 0), currentPoint := (3, 4) \<rparr>
   \<and> (\<exists>st'. mouseMove \<lparr> lngLat = \<lparr> lng = 5, lat = 5 \<rparr> \<rparr> 1
               (mouseDown \<lparr> lngLat = \<lparr> lng = 3, lat = 4 \<rparr> \<rparr> (example_state \<lparr> ne = \<lparr> lng = 10, lat = 10 \<rparr>, sw = \<lparr> lng = - 10, lat = - 10 \<rparr> \<rparr> (0, 0) False))
             = Inr st'
         \<and> previousPoint st' = (3, 4) \<and> currentPoint st' = (5, 5)
         \<and> trackingRect st' = Some (Source (Some \<lparr> bounds =
             Some \<lparr> ne = \<lparr> lng = 12, lat = 11 \<rparr>, sw = \<lparr> lng = - 8, lat = - 9 \<rparr> \<rparr> \<rparr>)))"
  using mouseDown_records_point
    [of "example_state \<lparr> ne = \<lparr> lng = 10, lat = 10 \<rparr>, sw = \<lparr> lng = - 10, lat = - 10 \<rparr> \<rparr> (0, 0) False" "\<lparr> lngLat = \<lparr> lng = 3, lat = 4 \<rparr> \<rparr>"
        "\<lparr> lngLat = \<lparr> lng = 5, lat = 5 \<rparr> \<rparr>" 1]
  by (auto simp: example_simps)

text \<open>What a pointer-up does during a drag: it ends the drag and, when the source and
  both maps are there, detaches the primary map's \<open>move\<close> listener and then asks the
  primary map to fit the stored bounds with duration 500; a pointer-move during the drag
  asks for the fit with duration 80 (unless \<open>disableMinimapMoveOnDrag\<close> is set).\<close>

lemma mouseUp_ends_drag:
  assumes "isDragging st"
  shows "(\<forall>st'. mouseUp st = Inr st' \<longrightarrow> \<not> isDragging st')
    \<and> (\<forall>d. trackingRect st = Some (Source (Some d)) \<and> has_map st \<and> has_minimap st \<longrightarrow>
          mouseUp st =
            Inr (st\<lparr>isDragging := False,
                    calls := calls st @ [MapOff ''move'', FitBounds (bounds d) 500]\<rparr>))
    \<and> (\<forall>d b e n. trackingRect st = Some (Source (Some d)) \<and> bounds d = Some b
          \<and> has_map st \<and> has_minimap st \<and> has_minimapCanvas st
          \<and> \<not> disableMinimapMoveOnDrag (options st) \<longrightarrow>
          (\<exists>st' b'. mouseMove e n st = Inr st' \<and> last (calls st') = FitBounds (Some b') 80))"
  using assms
  by (auto simp: mouseUp_def Let_def mouseMove_def mouseMove_with_def moveTrackingRect_def
      split: option.splits if_splits)

text \<open>No handler attaches the \<open>move\<close> listener: the only \<open>map.on("move", ..)\<close> is in
  \<open>load\<close>. Once a pointer-up has detached it, no sequence of events brings it back.\<close>

lemma handle_no_attach:
  assumes "handle ev st = Inr st'"
  shows "MapOn ''move'' \<in> set (calls st') \<longrightarrow> MapOn ''move'' \<in> set (calls st)"
proof (cases ev)
  case (Move zoom b)
  with assms show ?thesis
    by (auto simp: update_def setTrackingRectBounds_def zoomAdjust_def
      split: if_splits option.splits sum.splits)
next
  case (MoveEnd c)
  with assms show ?thesis by (auto simp: mapMoved_def split: if_splits)
next
  case (MouseMove e n)
  with assms show ?thesis
    by (auto simp: mouseMove_def mouseMove_with_def moveTrackingRect_def Let_def
      split: if_splits sum.splits prod.splits option.splits)
next
  case (MouseDown e)
  with assms show ?thesis by (auto simp: mouseDown_def split: if_splits)
next
  case MouseUp
  with assms show ?thesis by (auto simp: mouseUp_def Let_def split: if_splits option.splits)
qed

lemma run_no_attach:
  assumes "run evs st = Inr st'" and "MapOn ''move'' \<notin> set (calls st)"
  shows "MapOn ''move'' \<notin> set (calls st')"
  using assms
proof (induction evs arbitrary: st)
  case Nil
  then show ?case by simp
next
  case (Cons ev evs)
  from Cons.prems(1) obtain st1 where h: "handle ev st = Inr st1" and r: "run evs st1 = Inr st'"
    by (auto split: sum.splits)
  from handle_no_attach [OF h] Cons.prems(2) have "MapOn ''move'' \<notin> set (calls st1)" by blast
  from Cons.IH [OF r this] show ?case .
qed

text \<open>C5, evaluated at a pointer-up during a drag on a loaded control that shows
  NE(10,10)/SW(-10,-10): the drag ends, the \<open>move\<close> listener is detached and the fit with
  duration 500 is asked for, and that is all. No call attaches the listener again, here
  or in any later handler, so \<open>update\<close>, which \<open>load\<close> attached to keep the inset map in
  step with the primary map, is not called after the first drag. A whole gesture on the
  control as \<open>load\<close> leaves it (pointer-move onto the rectangle, pointer-down, pointer-move
  to (5,5), pointer-up) adds five calls to the eighteen of \<open>load\<close>, the last two being the
  detaching and the fit.\<close>

theorem mouseUp_no_reattach:
  "mouseUp (example_state \<lparr> ne = \<lparr> lng = 10, lat = 10 \<rparr>, sw = \<lparr> lng = - 10, lat = - 10 \<rparr> \<rparr> (0, 0) True)
     = Inr ((example_state \<lparr> ne = \<lparr> lng = 10, lat = 10 \<rparr>, sw = \<lparr> lng = - 10, lat = - 10 \<rparr> \<rparr> (0, 0) True)
         \<lparr> isDragging := False,
           calls := [MapOff ''move'', FitBounds (Some \<lparr> ne = \<lparr> lng = 10, lat = 10 \<rparr>, sw = \<lparr> lng = - 10, lat = - 10 \<rparr> \<rparr>) 500] \<rparr>)
   \<and> MapOn ''move'' \<notin> set [MapOff ''move'', FitBounds (Some \<lparr> ne = \<lparr> lng = 10, lat = 10 \<rparr>, sw = \<lparr> lng = - 10, lat = - 10 \<rparr> \<rparr>) 500]
   \<and> (case run [MouseMove \<lparr> lngLat = \<lparr> lng = 0, lat = 0 \<rparr> \<rparr> 1, MouseDown \<lparr> lngLat = \<lparr> lng = 0, lat = 0 \<rparr> \<rparr>,
                 MouseMove \<lparr> lngLat = \<lparr> lng = 5, lat = 5 \<rparr> \<rparr> 1, MouseUp]
             ((example_state \<lparr> ne = \<lparr> lng = 10, lat = 10 \<rparr>, sw = \<lparr> lng = - 10, lat = - 10 \<rparr> \<rparr> (0, 0) False)
                \<lparr> isCursorOverFeature := False,
                  calls :=
                    [Disable ''dragPan'', Disable ''scrollZoom'', Disable ''boxZoom'',
                     Disable ''dragRotate'', Disable ''keyboard'', Disable ''doubleClickZoom'',
                     Disable ''touchZoomRotate'',
                     AddSource ''trackingRect'' [[[], [], [], [], []]],
                     AddLineLayer ''trackingRectOutline'' ''trackingRect'' ''#136a7e'' 1 1,
                     AddFillLayer ''trackingRectFill'' ''trackingRect'' ''#d77a34'' 0.25,
                     SetZoom 2,
                     SetData (Some \<lparr> ne = \<lparr> lng = 10, lat = 10 \<rparr>, sw = \<lparr> lng = - 10, lat = - 10 \<rparr> \<rparr>)
                       [[[10, 10], [- 10, 10], [- 10, - 10], [10, - 10], [10, 10]]],
                     MapOn ''move'', MapOn ''moveend'', MinimapOn ''mousemove'',
                     MinimapOn ''mousedown'', MinimapOn ''mouseup'',
                     CanvasAddEventListener ''wheel''] \<rparr>)
       of Inl e \<Rightarrow> [] | Inr st' \<Rightarrow> drop 18 (calls st'))
      = [SetCursor ''move'',
         SetData (Some \<lparr> ne = \<lparr> lng = 15, lat = 15 \<rparr>, sw = \<lparr> lng = - 5, lat = - 5 \<rparr> \<rparr>) [[[10, 10], [- 10, 10], [- 10, - 10], [10, - 10], [10, 10]]],
         FitBounds (Some \<lparr> ne = \<lparr> lng = 15, lat = 15 \<rparr>, sw = \<lparr> lng = - 5, lat = - 5 \<rparr> \<rparr>) 80,
         MapOff ''move'',
         FitBounds (Some \<lparr> ne = \<lparr> lng = 15, lat = 15 \<rparr>, sw = \<lparr> lng = - 5, lat = - 5 \<rparr> \<rparr>) 500]"
  by (simp add: mouseUp_def mouseDown_def mouseMove_def mouseMove_with_def moveTrackingRect_def
      Let_def example_simps)

section \<open>The drag state machine\<close>

lemma moveTrackingRect_isDragging:
  "moveTrackingRect offset st = Inr (st', r) \<Longrightarrow> isDragging st' = isDragging st"
  by (auto simp: moveTrackingRect_def Let_def split: option.splits)

lemma mouseMove_isDragging:
  "mouseMove e n st = Inr st' \<Longrightarrow> isDragging st' = isDragging st"
  by (auto simp: mouseMove_def mouseMove_with_def Let_def
      split: if_splits sum.splits prod.splits dest: moveTrackingRect_isDragging)

lemma update_isDragging: "update zoom b st = Inr st' \<Longrightarrow> isDragging st' = isDragging st"
  by (auto simp: update_def setTrackingRectBounds_def zoomAdjust_def
      split: if_splits option.splits sum.splits)

lemma mouseUp_isDragging: "mouseUp st = Inr st' \<Longrightarrow> \<not> isDragging st'"
  by (auto simp: mouseUp_def Let_def split: if_splits option.splits)

lemma handle_idle_to_dragging:
  assumes "handle ev st = Inr st'" and "\<not> isDragging st"
  shows "isDragging st' \<longleftrightarrow> (\<exists>e. ev = MouseDown e) \<and> isCursorOverFeature st"
proof (cases ev)
  case (Move zoom b)
  with assms show ?thesis by (auto dest: update_isDragging)
next
  case (MoveEnd c)
  with assms show ?thesis by (auto simp: mapMoved_def split: if_splits)
next
  case (MouseMove e n)
  with assms show ?thesis by (auto dest: mouseMove_isDragging)
next
  case (MouseDown e)
  with assms show ?thesis by (auto simp: mouseDown_def split: if_splits)
next
  case MouseUp
  with assms show ?thesis by (auto dest: mouseUp_isDragging)
qed


text \<open>A run that starts idle and ends dragging holds a pointer-down that arrived with the
  cursor-over flag set.\<close>

lemma run_dragging_has_cause:
  assumes "run evs st = Inr st'" and "\<not> isDragging st" and "isDragging st'"
  shows "\<exists>evs1 e evs2 st1. evs = evs1 @ MouseDown e # evs2 \<and> run evs1 st = Inr st1
           \<and> isCursorOverFeature st1"
  using assms
proof (induction evs arbitrary: st)
  case Nil
  then show ?case by simp
next
  case (Cons ev evs)
  from Cons.prems(1) obtain st1 where h: "handle ev st = Inr st1" and r: "run evs st1 = Inr st'"
    by (auto split: sum.splits)
  show ?case
  proof (cases "isDragging st1")
    case True
    with handle_idle_to_dragging [OF h Cons.prems(2)] obtain e where
      "ev = MouseDown e" "isCursorOverFeature st" by blast
    then have "ev # evs = [] @ MouseDown e # evs \<and> run [] st = Inr st \<and> isCursorOverFeature st"
      by simp
    then show ?thesis by blast
  next
    case False
    from Cons.IH [OF r False Cons.prems(3)] obtain evs1 e evs2 st2 where
      a: "evs = evs1 @ MouseDown e # evs2" "run evs1 st1 = Inr st2" "isCursorOverFeature st2"
      by blast
    then have "ev # evs = (ev # evs1) @ MouseDown e # evs2 \<and> run (ev # evs1) st = Inr st2
        \<and> isCursorOverFeature st2"
      using h by simp
    then show ?thesis by blast
  qed
qed















section \<open>Loaded controls handle every event\<close>

lemma ready_cases:
  assumes "ready st"
  obtains d b where "has_map st" "has_minimap st" "ring5 (trackingRectCoordinates st)"
    "trackingRect st = Some (Source (Some d))" "bounds d = Some b"
  using assms
  by (auto simp: ready_def split: option.splits source.splits)

lemma update_ready:
  assumes "ready st"
  shows "\<exists>st'. update zoom b st = Inr st' \<and> ready st'"
  using assms
  by (elim ready_cases)
    (auto simp: update_def setTrackingRectBounds_def zoomAdjust_def convertBoundsToPoints_ring5
      ready_def ring5_def)

lemma moveTrackingRect_ready:
  assumes "ready st"
  shows "\<exists>st' b'. moveTrackingRect offset st = Inr (st', Some b') \<and> ready st'"
  using assms
  by (elim ready_cases) (auto simp: moveTrackingRect_def Let_def ready_def)

lemma mouseMove_ready:
  assumes "ready st"
  shows "\<exists>st'. mouseMove e n st = Inr st' \<and> ready st'"
proof -
  let ?st1 = "(if \<not> (isCursorOverFeature st \<and> n > 0)
               then st\<lparr>isCursorOverFeature := (n > 0),
                       calls := calls st @ [SetCursor (if n > 0 then ''move'' else [])]\<rparr>
               else st)"
  let ?st2 = "?st1\<lparr>previousPoint := currentPoint ?st1,
                   currentPoint := (lng (lngLat e), lat (lngLat e))\<rparr>"
  have r2: "ready ?st2" using assms by (simp add: ready_def)
  have r1: "ready ?st1" using assms by (simp add: ready_def)
  from moveTrackingRect_ready [OF r2] obtain st3 b' where
    m: "moveTrackingRect (fst (previousPoint ?st2) - fst (currentPoint ?st2),
          snd (previousPoint ?st2) - snd (currentPoint ?st2)) ?st2 = Inr (st3, Some b')"
    and r3: "ready st3" by blast
  have r3': "ready (st3\<lparr>calls := calls st3 @ [FitBounds (Some b') 80]\<rparr>)"
    using r3 by (simp add: ready_def)
  show ?thesis
    unfolding mouseMove_def mouseMove_with_def Let_def
    using assms r1 r3 r3' m by (simp del: fst_conv snd_conv)
qed

lemma mouseUp_ready:
  assumes "ready st"
  shows "\<exists>st'. mouseUp st = Inr st' \<and> ready st'"
  using assms
  by (elim ready_cases) (auto simp: mouseUp_def Let_def ready_def)

lemma handle_ready:
  assumes "ready st"
  shows "\<exists>st'. handle ev st = Inr st' \<and> ready st'"
proof (cases ev)
  case (Move zoom b)
  then show ?thesis using update_ready [OF assms] by simp
next
  case (MoveEnd c)
  then show ?thesis using assms by (simp add: mapMoved_def ready_def)
next
  case (MouseMove e n)
  then show ?thesis using mouseMove_ready [OF assms] by simp
next
  case (MouseDown e)
  then show ?thesis using assms by (simp add: mouseDown_def ready_def)
next
  case MouseUp
  then show ?thesis using mouseUp_ready [OF assms] by simp
qed

lemma run_ready:
  assumes "ready st"
  shows "\<exists>st'. run evs st = Inr st' \<and> ready st'"
  using assms
proof (induction evs arbitrary: st)
  case Nil
  then show ?case by simp
next
  case (Cons ev evs)
  from handle_ready [OF Cons.prems] obtain st1 where h: "handle ev st = Inr st1" "ready st1"
    by blast
  with Cons.IH [OF h(2)] show ?case by simp
qed

text \<open>\<open>load\<close> on a fresh control that \<open>onAdd\<close> has given its two maps, when the engine
  returns the source that was added, leaves a loaded, idle control.\<close>

lemma load_ready:
  assumes "has_map st" and "has_minimap st" and "\<not> isDragging st"
    and "ring5 (trackingRectCoordinates st)" and "env_source env = Some (Source (Some d))"
  shows "\<exists>st'. load env st = Inr st' \<and> ready st' \<and> \<not> isDragging st'"
  using assms
  by (auto simp: load_def Let_def update_def setTrackingRectBounds_def zoomAdjust_def
      convertBoundsToPoints_ring5 ready_def ring5_def)

section \<open>Options and the interactions of the inset map\<close>

lemma disable_unwanted_default:
  "disable_unwanted default_options interactions = map Disable interactions"
  by (simp add: interactions_def option_enabled_def default_options_def)

lemma load_calls_prefix:
  assumes "load env st = Inr st'"
  shows "\<exists>rest. calls st' = calls st @ disable_unwanted (options st) interactions @ rest"
  using assms
  by (auto simp: load_def Let_def update_def setTrackingRectBounds_def zoomAdjust_def
      split: if_splits sum.splits option.splits)

lemma load_default_disables:
  assumes "options st = default_options" and "load env st = Inr st'"
  shows "take 7 (drop (length (calls st)) (calls st')) = [Disable ''dragPan'', Disable ''scrollZoom'', Disable ''boxZoom'',
            Disable ''dragRotate'', Disable ''keyboard'', Disable ''doubleClickZoom'',
            Disable ''touchZoomRotate'']"
proof -
  from load_calls_prefix [OF assms(2)] obtain rest where
    "calls st' = calls st @ disable_unwanted (options st) interactions @ rest" ..
  with assms(1) have "calls st' = calls st @ map Disable interactions @ rest"
    by (simp add: disable_unwanted_default)
  then show ?thesis by (simp add: interactions_def)
qed

lemma constructor_Some_options:
  "options (constructor (Some cfg)) =
     \<lparr> id_opt = (case cfg_id cfg of Some v \<Rightarrow> v | None \<Rightarrow> ''mapgl-minimap''),
       width = (case cfg_width cfg of Some v \<Rightarrow> v | None \<Rightarrow> ''320px''),
       height = (case cfg_height cfg of Some v \<Rightarrow> v | None \<Rightarrow> ''180px''),
       style = (case cfg_style cfg of Some v \<Rightarrow> v | None \<Rightarrow> EmptyStyle),
       center = (case cfg_center cfg of Some v \<Rightarrow> v | None \<Rightarrow> (0, 0)),
       zoomLevelOffset = (case cfg_zoomLevelOffset cfg of Some v \<Rightarrow> v | None \<Rightarrow> - 3),
       lineColor = (case cfg_lineColor cfg of Some v \<Rightarrow> v | None \<Rightarrow> ''#136a7e''),
       lineWidth = (case cfg_lineWidth cfg of Some v \<Rightarrow> v | None \<Rightarrow> 1),
       lineOpacity = (case cfg_lineOpacity cfg of Some v \<Rightarrow> v | None \<Rightarrow> 1),
       fillColor = (case cfg_fillColor cfg of Some v \<Rightarrow> v | None \<Rightarrow> ''#d77a34''),
       fillOpacity = (case cfg_fillOpacity cfg of Some v \<Rightarrow> v | None \<Rightarrow> 0.25),
       toggleDisplay = (case cfg_toggleDisplay cfg of Some v \<Rightarrow> v | None \<Rightarrow> False),
       dragPan = (case cfg_dragPan cfg of Some v \<Rightarrow> v | None \<Rightarrow> False),
       scrollZoom = (case cfg_scrollZoom cfg of Some v \<Rightarrow> v | None \<Rightarrow> False),
       boxZoom = (case cfg_boxZoom cfg of Some v \<Rightarrow> v | None \<Rightarrow> False),
       dragRotate = (case cfg_dragRotate cfg of Some v \<Rightarrow> v | None \<Rightarrow> False),
       keyboard = (case cfg_keyboard cfg of Some v \<Rightarrow> v | None \<Rightarrow> False),
       doubleClickZoom = (case cfg_doubleClickZoom cfg of Some v \<Rightarrow> v | None \<Rightarrow> False),
       touchZoomRotate = (case cfg_touchZoomRotate cfg of Some v \<Rightarrow> v | None \<Rightarrow> False),
       disableMinimapMoveOnDrag =
         (case cfg_disableMinimapMoveOnDrag cfg of Some v \<Rightarrow> v | None \<Rightarrow> False),
       enableResize = (case cfg_enableResize cfg of Some v \<Rightarrow> v | None \<Rightarrow> False),
       enableMove = (case cfg_enableMove cfg of Some v \<Rightarrow> v | None \<Rightarrow> False),
       maxBounds = cfg_maxBounds cfg,
       containerClass = cfg_containerClass cfg \<rparr>"
  by (cases "cfg_fillOpacity cfg"; cases "cfg_maxBounds cfg"; cases "cfg_containerClass cfg")
    (simp_all add: constructor_def object_assign_def assigned_def default_options_def)

lemma load_example:
  "load \<lparr> env_zoom = 5, env_bounds = \<lparr> ne = \<lparr> lng = 10, lat = 10 \<rparr>, sw = \<lparr> lng = - 10, lat = - 10 \<rparr> \<rparr>,
           env_hasOutline = False, env_hasFill = False, env_hasSource = False,
           env_source = Some (Source (Some \<lparr> bounds = None \<rparr>)),
           env_canvasContainer = True \<rparr>
        ((constructor None)\<lparr>has_map := True, has_minimap := True\<rparr>)
     = Inr ((constructor None)
         \<lparr> has_map := True, has_minimap := True, has_minimapCanvas := True,
           trackingRect := Some (Source (Some \<lparr> bounds = Some \<lparr> ne = \<lparr> lng = 10, lat = 10 \<rparr>, sw = \<lparr> lng = - 10, lat = - 10 \<rparr> \<rparr> \<rparr>)),
           trackingRectCoordinates := [[[10, 10], [- 10, 10], [- 10, - 10], [10, - 10], [10, 10]]],
           calls :=
             [Disable ''dragPan'', Disable ''scrollZoom'', Disable ''boxZoom'',
              Disable ''dragRotate'', Disable ''keyboard'', Disable ''doubleClickZoom'',
              Disable ''touchZoomRotate'',
              AddSource ''trackingRect'' [[[], [], [], [], []]],
              AddLineLayer ''trackingRectOutline'' ''trackingRect'' ''#136a7e'' 1 1,
              AddFillLayer ''trackingRectFill'' ''trackingRect'' ''#d77a34'' 0.25,
              SetZoom 2,
              SetData (Some \<lparr> ne = \<lparr> lng = 10, lat = 10 \<rparr>, sw = \<lparr> lng = - 10, lat = - 10 \<rparr> \<rparr>)
                [[[10, 10], [- 10, 10], [- 10, - 10], [10, - 10], [10, 10]]],
              MapOn ''move'', MapOn ''moveend'', MinimapOn ''mousemove'',
              MinimapOn ''mousedown'', MinimapOn ''mouseup'',
              CanvasAddEventListener ''wheel''] \<rparr>)"
  by (simp add: load_def Let_def update_def setTrackingRectBounds_def zoomAdjust_def
      convertBoundsToPoints_def interactions_def option_enabled_def example_simps)

text \<open>C10: constructed without a config, the control has \<open>zoomLevelOffset\<close> -3 and the
  seven interaction options false, and every \<open>load\<close> that returns on such options begins
  by disabling the seven handlers \<open>dragPan\<close>, \<open>scrollZoom\<close>, \<open>boxZoom\<close>, \<open>dragRotate\<close>,
  \<open>keyboard\<close>, \<open>doubleClickZoom\<close> and \<open>touchZoomRotate\<close> of the inset map. Constructed with
  a config, every option is the config's value where the config has the field and the
  default where it has not.\<close>

theorem constructor_defaults:
  "zoomLevelOffset (options (constructor None)) = - 3
   \<and> dragPan (options (constructor None)) = False
   \<and> scrollZoom (options (constructor None)) = False
   \<and> boxZoom (options (constructor None)) = False
   \<and> dragRotate (options (constructor None)) = False
   \<and> keyboard (options (constructor None)) = False
   \<and> doubleClickZoom (options (constructor None)) = False
   \<and> touchZoomRotate (options (constructor None)) = False
   \<and> (\<forall>env st st'. options st = options (constructor None) \<and> load env st = Inr st' \<longrightarrow>
         take 7 (drop (length (calls st)) (calls st')) = [Disable ''dragPan'', Disable ''scrollZoom'', Disable ''boxZoom'',
            Disable ''dragRotate'', Disable ''keyboard'', Disable ''doubleClickZoom'',
            Disable ''touchZoomRotate''])
   \<and> (\<forall>cfg. options (constructor (Some cfg)) =
     \<lparr> id_opt = (case cfg_id cfg of Some v \<Rightarrow> v | None \<Rightarrow> ''mapgl-minimap''),
       width = (case cfg_width cfg of Some v \<Rightarrow> v | None \<Rightarrow> ''320px''),
       height = (case cfg_height cfg of Some v \<Rightarrow> v | None \<Rightarrow> ''180px''),
       style = (case cfg_style cfg of Some v \<Rightarrow> v | None \<Rightarrow> EmptyStyle),
       center = (case cfg_center cfg of Some v \<Rightarrow> v | None \<Rightarrow> (0, 0)),
       zoomLevelOffset = (case cfg_zoomLevelOffset cfg of Some v \<Rightarrow> v | None \<Rightarrow> - 3),
       lineColor = (case cfg_lineColor cfg of Some v \<Rightarrow> v | None \<Rightarrow> ''#136a7e''),
       lineWidth = (case cfg_lineWidth cfg of Some v \<Rightarrow> v | None \<Rightarrow> 1),
       lineOpacity = (case cfg_lineOpacity cfg of Some v \<Rightarrow> v | None \<Rightarrow> 1),
       fillColor = (case cfg_fillColor cfg of Some v \<Rightarrow> v | None \<Rightarrow> ''#d77a34''),
       fillOpacity = (case cfg_fillOpacity cfg of Some v \<Rightarrow> v | None \<Rightarrow> 0.25),
       toggleDisplay = (case cfg_toggleDisplay cfg of Some v \<Rightarrow> v | None \<Rightarrow> False),
       dragPan = (case cfg_dragPan cfg of Some v \<Rightarrow> v | None \<Rightarrow> False),
       scrollZoom = (case cfg_scrollZoom cfg of Some v \<Rightarrow> v | None \<Rightarrow> False),
       boxZoom = (case cfg_boxZoom cfg of Some v \<Rightarrow> v | None \<Rightarrow> False),
       dragRotate = (case cfg_dragRotate cfg of Some v \<Rightarrow> v | None \<Rightarrow> False),
       keyboard = (case cfg_keyboard cfg of Some v \<Rightarrow> v | None \<Rightarrow> False),
       doubleClickZoom = (case cfg_doubleClickZoom cfg of Some v \<Rightarrow> v | None \<Rightarrow> False),
       touchZoomRotate = (case cfg_touchZoomRotate cfg of Some v \<Rightarrow> v | None \<Rightarrow> False),
       disableMinimapMoveOnDrag =
         (case cfg_disableMinimapMoveOnDrag cfg of Some v \<Rightarrow> v | None \<Rightarrow> False),
       enableResize = (case cfg_enableResize cfg of Some v \<Rightarrow> v | None \<Rightarrow> False),
       enableMove = (case cfg_enableMove cfg of Some v \<Rightarrow> v | None \<Rightarrow> False),
       maxBounds = cfg_maxBounds cfg,
       containerClass = cfg_containerClass cfg \<rparr>)"
proof -
  have d: "options (constructor None) = default_options"
    by (simp add: constructor_def)
  have flags: "zoomLevelOffset default_options = - 3" "dragPan default_options = False"
    "scrollZoom default_options = False" "boxZoom default_options = False"
    "dragRotate default_options = False" "keyboard default_options = False"
    "doubleClickZoom default_options = False" "touchZoomRotate default_options = False"
    by (simp_all add: default_options_def)
  show ?thesis
    unfolding d using flags load_default_disables constructor_Some_options by blast
qed

theorem constructor_defaults_witness:
  "options ((constructor None)\<lparr>has_map := True, has_minimap := True\<rparr>)
     = options (constructor None)
   \<and> load \<lparr> env_zoom = 5, env_bounds = \<lparr> ne = \<lparr> lng = 10, lat = 10 \<rparr>, sw = \<lparr> lng = - 10, lat = - 10 \<rparr> \<rparr>,
           env_hasOutline = False, env_hasFill = False, env_hasSource = False,
           env_source = Some (Source (Some \<lparr> bounds = None \<rparr>)),
           env_canvasContainer = True \<rparr>
        ((constructor None)\<lparr>has_map := True, has_minimap := True\<rparr>)
     = Inr ((constructor None)
         \<lparr> has_map := True, has_minimap := True, has_minimapCanvas := True,
           trackingRect := Some (Source (Some \<lparr> bounds = Some \<lparr> ne = \<lparr> lng = 10, lat = 10 \<rparr>, sw = \<lparr> lng = - 10, lat = - 10 \<rparr> \<rparr> \<rparr>)),
           trackingRectCoordinates := [[[10, 10], [- 10, 10], [- 10, - 10], [10, - 10], [10, 10]]],
           calls :=
             [Disable ''dragPan'', Disable ''scrollZoom'', Disable ''boxZoom'',
              Disable ''dragRotate'', Disable ''keyboard'', Disable ''doubleClickZoom'',
              Disable ''touchZoomRotate'',
              AddSource ''trackingRect'' [[[], [], [], [], []]],
              AddLineLayer ''trackingRectOutline'' ''trackingRect'' ''#136a7e'' 1 1,
              AddFillLayer ''trackingRectFill'' ''trackingRect'' ''#d77a34'' 0.25,
              SetZoom 2,
              SetData (Some \<lparr> ne = \<lparr> lng = 10, lat = 10 \<rparr>, sw = \<lparr> lng = - 10, lat = - 10 \<rparr> \<rparr>)
                [[[10, 10], [- 10, 10], [- 10, - 10], [10, - 10], [10, 10]]],
              MapOn ''move'', MapOn ''moveend'', MinimapOn ''mousemove'',
              MinimapOn ''mousedown'', MinimapOn ''mouseup'',
              CanvasAddEventListener ''wheel''] \<rparr>)
   \<and> take 7 (drop (length (calls ((constructor None)\<lparr>has_map := True, has_minimap := True\<rparr>)))
        (calls ((constructor None)
         \<lparr> has_map := True, has_minimap := True, has_minimapCanvas := True,
           trackingRect := Some (Source (Some \<lparr> bounds = Some \<lparr> ne = \<lparr> lng = 10, lat = 10 \<rparr>, sw = \<lparr> lng = - 10, lat = - 10 \<rparr> \<rparr> \<rparr>)),
           trackingRectCoordinates := [[[10, 10], [- 10, 10], [- 10, - 10], [10, - 10], [10, 10]]],
           calls :=
             [Disable ''dragPan'', Disable ''scrollZoom'', Disable ''boxZoom'',
              Disable ''dragRotate'', Disable ''keyboard'', Disable ''doubleClickZoom'',
              Disable ''touchZoomRotate'',
              AddSource ''trackingRect'' [[[], [], [], [], []]],
              AddLineLayer ''trackingRectOutline'' ''trackingRect'' ''#136a7e'' 1 1,
              AddFillLayer ''trackingRectFill'' ''trackingRect'' ''#d77a34'' 0.25,
              SetZoom 2,
              SetData (Some \<lparr> ne = \<lparr> lng = 10, lat = 10 \<rparr>, sw = \<lparr> lng = - 10, lat = - 10 \<rparr> \<rparr>)
                [[[10, 10], [- 10, 10], [- 10, - 10], [10, - 10], [10, 10]]],
              MapOn ''move'', MapOn ''moveend'', MinimapOn ''mousemove'',
              MinimapOn ''mousedown'', MinimapOn ''mouseup'',
              CanvasAddEventListener ''wheel''] \<rparr>))) = [Disable ''dragPan'', Disable ''scrollZoom'', Disable ''boxZoom'',
            Disable ''dragRotate'', Disable ''keyboard'', Disable ''doubleClickZoom'',
            Disable ''touchZoomRotate'']"
  using constructor_defaults load_example
  by (simp add: example_simps)


end
